theory Spec2Isabelle
  imports Complex_Main
begin

section \<open>Exceptions and external services\<close>

text \<open>
  The exceptions the routes raise or catch. \<open>HTTPException\<close> carries its status code
  and detail; \<open>ImportError\<close> and \<open>NameError\<close> carry the name that could not be
  resolved; \<open>ServiceError\<close> is any exception raised inside a client library (OpenAI,
  Supabase, the temporary-file API), with its message. All of them are subclasses of
  \<open>Exception\<close>, so every \<open>except Exception\<close> clause catches each of them.
\<close>

datatype exn =
    HTTPException nat string
  | ImportError string
  | NameError string
  | TypeError string
  | ServiceError string

text \<open>Embeddings and similarity scores are floating-point numbers that the routes of
  \<open>chat.py\<close> only pass along and compare; finite floats compare as the rationals
  they denote.\<close>

type_synonym embedding = "rat list"

type_synonym bytes = "nat list"

text \<open>A row returned by the \<open>match_chunks\<close> remote procedure: the dict with keys
  \<open>id\<close>, \<open>media_id\<close>, \<open>chunk_text\<close>, \<open>similarity\<close> and, optionally, the
  nested dict \<open>media\<close>.\<close>

record candidate =
  row_id :: string
  row_media_id :: string
  row_chunk_text :: string
  row_similarity :: rat
  row_media :: "(string \<times> string) list option"

text \<open>The tables of the metadata store that the routes read and write.\<close>

record chunk_row =
  c_id :: string
  c_chunk_text :: string
  c_media_id :: string
  c_page_number :: "int option"
  c_embedding :: string

record media_row =
  m_id :: string
  m_name :: string
  m_original_name :: string
  m_media_type :: string
  m_owner_id :: string
  m_storage_path :: string

record mapping_row =
  mw_media_id :: string
  mw_workspace_id :: string

text \<open>
  Everything outside the process that a request touches. The state: the three tables
  and the storage bucket (object path and content). The behaviour of the collaborators,
  as functions of their arguments:
  \<^item> \<open>db_fault\<close> says, per table name (and for \<open>''storage''\<close>), whether a call on
    it raises (a transport or API error) instead of answering;
  \<^item> \<open>insert_returns\<close> says, per table, whether an insert answers with the inserted
    row; when it does not, \<open>result.data\<close> is empty and no row is stored;
  \<^item> \<open>new_id\<close> is the identifier the store gives the next row of a table that holds
    the given number of rows, \<open>uuid4\<close> the next generated file name;
  \<^item> \<open>exc_str\<close> is Python's \<open>str(e)\<close>; \<open>splitext_ext\<close> is
    \<open>os.path.splitext(p)[1]\<close> and \<open>path_ext\<close> is
    \<open>os.path.splitext(p)[1].lower()[1:]\<close>; \<open>json_dumps\<close> and \<open>json_loads\<close>
    are the \<open>json\<close> functions on embeddings; \<open>cosine\<close> is the numpy expression
    \<open>dot(a, b) / (norm(a) * norm(b))\<close>;
  \<^item> \<open>embeddings_create\<close>, \<open>chat_completions_create\<close> (system and user message to
    the content of the first choice), \<open>match_chunks\<close> (the remote procedure of the
    store) and \<open>docling_convert\<close> (the document converter followed by
    \<open>export_to_markdown\<close>) are the external services.
\<close>

record world =
  chunks_table :: "chunk_row list"
  media_table :: "media_row list"
  media_workspace_mapping :: "mapping_row list"
  storage :: "(string \<times> bytes) list"
  db_fault :: "string \<Rightarrow> exn option"
  insert_returns :: "string \<Rightarrow> bool"
  new_id :: "string \<Rightarrow> nat \<Rightarrow> string"
  uuid4 :: "nat \<Rightarrow> string"
  exc_str :: "exn \<Rightarrow> string"
  splitext_ext :: "string \<Rightarrow> string"
  path_ext :: "string \<Rightarrow> string"
  json_dumps :: "embedding \<Rightarrow> string"
  json_loads :: "string \<Rightarrow> exn + embedding"
  cosine :: "embedding \<Rightarrow> embedding \<Rightarrow> rat"
  embeddings_create :: "string \<Rightarrow> exn + embedding"
  match_chunks :: "embedding \<Rightarrow> rat \<Rightarrow> int \<Rightarrow> exn + candidate list"
  chat_completions_create :: "string \<Rightarrow> string \<Rightarrow> exn + string"
  docling_convert :: "bytes \<Rightarrow> exn + string"

text \<open>The handler every route ends with:
  \<open>except Exception as e: raise HTTPException(status_code=500, detail=str(e))\<close>.\<close>

definition wrap500 :: "world \<Rightarrow> exn + 'a \<Rightarrow> exn + 'a" where
  "wrap500 w r = (case r of Inl e \<Rightarrow> Inl (HTTPException 500 (exc_str w e)) | Inr v \<Rightarrow> Inr v)"

text \<open>\<open>create_embedding(text, openai_client)\<close>: the call to the embedding service; its
  exceptions are not caught here.\<close>

definition create_embedding :: "world \<Rightarrow> string \<Rightarrow> exn + embedding" where
  "create_embedding w txt = embeddings_create w txt"

section \<open>Text chunking (app/utils/text\_processing.py)\<close>

text \<open>
  Python strings are sequences of code points; a \<^typ>\<open>string\<close> here is the list of the
  code points of the text, one \<^typ>\<open>char\<close> each (so the model covers texts whose code
  points are below 256), and \<open>len\<close> is \<^const>\<open>length\<close>. Python integers are
  unbounded: \<open>chunk_size\<close> is an \<^typ>\<open>int\<close>.
\<close>

text \<open>\<open>str.split(sep)\<close> for a one-character separator: the pieces between the
  separators, always at least one piece (\<open>''.split('.') == ['']\<close>).\<close>

fun split_str :: "char \<Rightarrow> string \<Rightarrow> string list" where
  "split_str sep [] = [[]]"
| "split_str sep (c # cs) =
     (if c = sep then [] # split_str sep cs
      else (case split_str sep cs of
              [] \<Rightarrow> [[c]]
            | piece # pieces \<Rightarrow> (c # piece) # pieces))"

text \<open>\<open>str.isspace\<close> on the code points below 256: tab, line feed, vertical tab, form
  feed, carriage return, the separators 0x1C to 0x1F, space, NEL (0x85) and the
  no-break space (0xA0).\<close>

definition isspace :: "char \<Rightarrow> bool" where
  "isspace c =
     (let n = of_char c :: nat
      in (9 \<le> n \<and> n \<le> 13) \<or> (28 \<le> n \<and> n \<le> 32) \<or> n = 133 \<or> n = 160)"

text \<open>\<open>str.strip()\<close>: leading and trailing whitespace removed.\<close>

definition strip :: "string \<Rightarrow> string" where
  "strip s = rev (dropWhile isspace (rev (dropWhile isspace s)))"

text \<open>A chunk as \<open>split_into_chunks\<close> emits it: the dict
  \<open>{"text": ..., "metadata": {}}\<close>.\<close>

record chunk =
  ctext :: string
  metadata :: "(string \<times> string) list"

definition mk_chunk :: "string \<Rightarrow> chunk" where
  "mk_chunk s = \<lparr>ctext = s, metadata = []\<rparr>"

text \<open>The \<open>for sentence in sentences\<close> loop, with the two variables it updates
  (\<open>chunks\<close>, \<open>current_chunk\<close>) passed along.\<close>

fun chunk_loop :: "int \<Rightarrow> string list \<Rightarrow> chunk list \<Rightarrow> string \<Rightarrow> chunk list \<times> string" where
  "chunk_loop chunk_size [] chunks current_chunk = (chunks, current_chunk)"
| "chunk_loop chunk_size (sentence # sentences) chunks current_chunk =
     (if int (length current_chunk) + int (length sentence) > chunk_size
      then chunk_loop chunk_size sentences
             (chunks @ [mk_chunk (strip current_chunk)]) sentence
      else chunk_loop chunk_size sentences chunks (current_chunk @ sentence @ ''.''))"

text \<open>\<open>split_into_chunks(text, chunk_size)\<close>. With a \<open>str\<close> and an \<open>int\<close> as
  arguments no statement of the \<open>try\<close> body raises, so the \<open>except\<close> branch (one
  chunk holding the whole text) is not a branch of the model.\<close>

definition split_into_chunks :: "string \<Rightarrow> int \<Rightarrow> chunk list" where
  "split_into_chunks txt chunk_size =
     (case chunk_loop chunk_size (split_str CHR ''.'' txt) [] [] of
        (chunks, current_chunk) \<Rightarrow>
          if current_chunk \<noteq> [] then chunks @ [mk_chunk (strip current_chunk)]
          else chunks)"


section \<open>The chat route (app/routes/chat.py)\<close>

record ChatRequest =
  query :: string
  workspace_id :: string
  user_id :: "string option"
  max_context_chunks :: "int option"
  authorization :: "string option"

record MediaContext =
  media_id :: string
  media_name :: string
  chunk_id :: string
  chunk_text :: string
  similarity :: rat

record ChatResponse =
  answer :: string
  context_sources :: "MediaContext list"

text \<open>The calls a query makes to the outside, in the order they are made.\<close>

datatype event =
    EmbedQuery string
  | VectorSearch embedding rat int
  | WorkspaceLookup string
  | Generate string string

definition NL :: string where
  "NL = [CHR 0x0A]"

definition generic_instruction :: string where
  "generic_instruction = ''You are a helpful assistant.''"

definition system_prompt :: string where
  "system_prompt =
     ''You are a helpful assistant that answers questions based on the provided context.'' @ NL @
     ''        If the context doesn't contain relevant information to answer the question, state that you don't have enough information.'' @ NL @
     ''        Cite the source of your information when possible. Try to use as much information as possible to answer the question. You can use knowledge '' @ NL @
     ''        outside of the context if needed. The context is a collection of documents that are related to the question.'' @ NL @
     ''        ''"

definition user_prompt :: "string \<Rightarrow> string \<Rightarrow> string" where
  "user_prompt context q =
     ''Context information:'' @ NL @ context @ NL @ NL @ ''Question: '' @ q @ NL @ NL @
     ''Please provide a helpful response based on the context.''"

text \<open>\<open>match_documents(query_embedding)\<close> with its defaults
  \<open>match_threshold=0.35\<close>, \<open>match_count=20\<close>; it returns \<open>result.data\<close>. A
  \<open>None\<close> there is the empty list of the model: the caller only tests it with
  \<open>not\<close>.\<close>

definition match_documents :: "world \<Rightarrow> embedding \<Rightarrow> exn + candidate list" where
  "match_documents w query_embedding = match_chunks w query_embedding (35 / 100) 20"

text \<open>The query on \<open>media_workspace_mapping\<close>:
  \<open>select("media_id").eq("workspace_id", workspace_id)\<close>, then the list of the
  \<open>media_id\<close> values (the empty list when there is no data).\<close>

definition workspace_media_ids :: "world \<Rightarrow> string \<Rightarrow> exn + string list" where
  "workspace_media_ids w ws =
     (case db_fault w ''media_workspace_mapping'' of
        Some e \<Rightarrow> Inl e
      | None \<Rightarrow>
          Inr (map mw_media_id
                 (filter (\<lambda>item. mw_workspace_id item = ws) (media_workspace_mapping w))))"

text \<open>Lines 118 to 122: the list comprehension that keeps the rows whose
  \<open>media_id\<close> is among the workspace's, then
  \<open>sort(key=lambda x: x['similarity'], reverse=True)\<close>. Python's sort is stable, also
  with \<open>reverse=True\<close>; so is \<^const>\<open>sort_key\<close>, and negating the key reverses the
  order while equal keys stay equal.\<close>

definition workspace_filter :: "candidate list \<Rightarrow> string list \<Rightarrow> candidate list" where
  "workspace_filter vector_search_result ids =
     sort_key (\<lambda>x. - row_similarity x)
       (filter (\<lambda>result. row_media_id result \<in> set ids) vector_search_result)"

text \<open>\<open>chunk.get('media', {}).get('name', 'Unknown')\<close>.\<close>

definition media_name_of :: "candidate \<Rightarrow> string" where
  "media_name_of chunk =
     (case row_media chunk of
        None \<Rightarrow> ''Unknown''
      | Some d \<Rightarrow> (case map_of d ''name'' of None \<Rightarrow> ''Unknown'' | Some n \<Rightarrow> n))"

text \<open>The loop over \<open>top_chunks\<close>: one context block and one citation per chunk.\<close>

definition context_block :: "candidate \<Rightarrow> string" where
  "context_block chunk =
     NL @ NL @ ''Context from '' @ media_name_of chunk @ '':'' @ NL @ row_chunk_text chunk @ NL"

definition citation :: "candidate \<Rightarrow> MediaContext" where
  "citation chunk =
     \<lparr>media_id = row_media_id chunk, media_name = media_name_of chunk,
      chunk_id = row_id chunk, chunk_text = row_chunk_text chunk,
      similarity = row_similarity chunk\<rparr>"

fun build_context :: "candidate list \<Rightarrow> string \<Rightarrow> MediaContext list \<Rightarrow> string \<times> MediaContext list" where
  "build_context [] context sources = (context, sources)"
| "build_context (chunk # top_chunks) context sources =
     build_context top_chunks (context @ context_block chunk) (sources @ [citation chunk])"

text \<open>One generation call (\<open>openai_client.chat.completions.create\<close> with a system and a
  user message) followed by the construction of the response.\<close>

definition generate :: "world \<Rightarrow> event list \<Rightarrow> string \<Rightarrow> string \<Rightarrow> MediaContext list
    \<Rightarrow> event list \<times> (exn + ChatResponse)" where
  "generate w tr sys usr sources =
     (tr @ [Generate sys usr],
      case chat_completions_create w sys usr of
        Inl e \<Rightarrow> Inl e
      | Inr content \<Rightarrow> Inr \<lparr>answer = content, context_sources = sources\<rparr>)"

text \<open>Lines 66 to 72: no user id in the request.\<close>

definition reject_unauthenticated :: "ChatRequest \<Rightarrow> exn" where
  "reject_unauthenticated request =
     (case authorization request of
        None \<Rightarrow> HTTPException 401 ''Authentication required''
      | Some auth_header \<Rightarrow>
          if auth_header \<noteq> [] \<and> take 7 auth_header = ''Bearer ''
          then HTTPException 401 ''User ID extraction not implemented''
          else HTTPException 401 ''Authentication required'')"

text \<open>The body of the \<open>try\<close> block of \<open>chat\<close>, with the trace of the external
  calls it made.\<close>

definition chat_body :: "world \<Rightarrow> ChatRequest \<Rightarrow> event list \<times> (exn + ChatResponse)" where
  "chat_body w request =
     (if user_id request = None \<or> user_id request = Some []
      then ([], Inl (reject_unauthenticated request))
      else
        case create_embedding w (query request) of
          Inl e \<Rightarrow> ([EmbedQuery (query request)], Inl e)
        | Inr query_embedding \<Rightarrow>
           (let tr1 = [EmbedQuery (query request), VectorSearch query_embedding (35 / 100) 20]
            in case match_documents w query_embedding of
                 Inl e \<Rightarrow> (tr1, Inl e)
               | Inr vector_search_result \<Rightarrow>
                   if vector_search_result = []
                   then generate w tr1 generic_instruction (query request) []
                   else
                    (let tr2 = tr1 @ [WorkspaceLookup (workspace_id request)]
                     in case workspace_media_ids w (workspace_id request) of
                          Inl e \<Rightarrow> (tr2, Inl e)
                        | Inr ids \<Rightarrow>
                            if ids = []
                            then generate w tr2 generic_instruction (query request) []
                            else
                             (let filtered_results = workspace_filter vector_search_result ids;
                                  max_chunks = min 10 (length filtered_results);
                                  top_chunks = take max_chunks filtered_results
                              in case build_context top_chunks [] [] of
                                   (context, sources) \<Rightarrow>
                                     generate w tr2 system_prompt
                                       (user_prompt context (query request)) sources))))"

definition chat :: "world \<Rightarrow> ChatRequest \<Rightarrow> event list \<times> (exn + ChatResponse)" where
  "chat w request = (case chat_body w request of (tr, r) \<Rightarrow> (tr, wrap500 w r))"

section \<open>Ingestion (app/routes/process\_chunks.py)\<close>

record ChunkMetadata =
  headings :: "string list"
  page_number :: "int option"
  content_type :: "string option"

record ProcessChunkRequest =
  fileName :: string

record ChunkResult =
  chunkId :: string
  pageNumber :: "int option"
  result_metadata :: ChunkMetadata

record DocumentStructure =
  structure_headings :: "string list"
  sections :: "string list"

text \<open>\<open>tables\<close> and \<open>figures\<close> of the response are built from the lists of the
  document result, which \<open>process_document_with_docling\<close> always leaves empty; their
  elements are identifiers here. The fields \<open>structure\<close> and \<open>note\<close> are
  \<open>structure_info\<close> and \<open>note_text\<close>, and \<open>chunks\<close> is \<open>chunks_n\<close>.\<close>

record ProcessChunkResponse =
  success :: bool
  chunks_n :: int
  results :: "ChunkResult list"
  tables :: "string list"
  figures :: "string list"
  structure_info :: DocumentStructure
  note_text :: string

text \<open>The dict \<open>process_document_with_docling\<close> returns: the key \<open>error\<close> is
  present only when the conversion raised.\<close>

record doc_result =
  doc_error :: "string option"
  doc_text :: string
  doc_tables :: "string list"
  doc_figures :: "string list"
  doc_structure :: DocumentStructure

text \<open>\<open>process_document_with_docling(file_path, file_type)\<close>. The temporary file is
  written by the caller just before and holds the downloaded bytes, so the path is
  represented by the bytes stored under it. Every exception of the conversion is caught
  and becomes the \<open>error\<close> entry.\<close>

definition process_document_with_docling :: "world \<Rightarrow> bytes \<Rightarrow> string \<Rightarrow> doc_result" where
  "process_document_with_docling w file_bytes file_type =
     (case docling_convert w file_bytes of
        Inr content \<Rightarrow>
          \<lparr>doc_error = None, doc_text = content, doc_tables = [], doc_figures = [],
           doc_structure = \<lparr>structure_headings = [], sections = []\<rparr>\<rparr>
      | Inl e \<Rightarrow>
          \<lparr>doc_error = Some (''Failed to process document: '' @ exc_str w e), doc_text = [],
           doc_tables = [], doc_figures = [],
           doc_structure = \<lparr>structure_headings = [], sections = []\<rparr>\<rparr>)"

text \<open>\<open>os.path.basename\<close>: what follows the last slash.\<close>

definition basename :: "string \<Rightarrow> string" where
  "basename p = rev (takeWhile (\<lambda>c. c \<noteq> CHR ''/'') (rev p))"

text \<open>\<open>supabase.storage.from_(STORAGE_BUCKET).download(name)\<close>: raises when the call
  fails or the object is absent, returns the content otherwise.\<close>

definition storage_download :: "world \<Rightarrow> string \<Rightarrow> exn + bytes" where
  "storage_download w name =
     (case db_fault w ''storage'' of
        Some e \<Rightarrow> Inl e
      | None \<Rightarrow>
          (case map_of (storage w) name of
             None \<Rightarrow> Inl (ServiceError ''Object not found'')
           | Some content \<Rightarrow> Inr content))"

text \<open>\<open>supabase.table('media').select('id, media_type, owner_id').eq('name', n)\<close>.\<close>

definition select_media_by_name :: "world \<Rightarrow> string \<Rightarrow> exn + media_row list" where
  "select_media_by_name w n =
     (case db_fault w ''media'' of
        Some e \<Rightarrow> Inl e
      | None \<Rightarrow> Inr (filter (\<lambda>r. m_name r = n) (media_table w)))"

text \<open>\<open>supabase.table('chunks').insert(chunk_data).execute()\<close>: the new world and
  \<open>result.data\<close>.\<close>

definition insert_chunk :: "world \<Rightarrow> string \<Rightarrow> string \<Rightarrow> string \<Rightarrow> world \<times> (exn + chunk_row list)" where
  "insert_chunk w text_of_chunk media embedding_json =
     (case db_fault w ''chunks'' of
        Some e \<Rightarrow> (w, Inl e)
      | None \<Rightarrow>
          if insert_returns w ''chunks''
          then (let row = \<lparr>c_id = new_id w ''chunks'' (length (chunks_table w)),
                            c_chunk_text = text_of_chunk, c_media_id = media,
                            c_page_number = None, c_embedding = embedding_json\<rparr>
                in (w\<lparr>chunks_table := chunks_table w @ [row]\<rparr>, Inr [row]))
          else (w, Inr []))"

text \<open>The \<open>for chunk in chunks\<close> loop of \<open>process_chunks\<close>: embed, insert, collect
  the result; the first exception ends it, and the rows stored so far stay stored.\<close>

fun store_chunks :: "world \<Rightarrow> string \<Rightarrow> chunk list \<Rightarrow> ChunkResult list
    \<Rightarrow> world \<times> (exn + ChunkResult list)" where
  "store_chunks w media [] acc = (w, Inr acc)"
| "store_chunks w media (c # cs) acc =
     (case create_embedding w (ctext c) of
        Inl e \<Rightarrow> (w, Inl e)
      | Inr embedding \<Rightarrow>
          (case insert_chunk w (ctext c) media (json_dumps w embedding) of
             (w', Inl e) \<Rightarrow> (w', Inl e)
           | (w', Inr []) \<Rightarrow> (w', Inl (HTTPException 500 ''Failed to store chunk''))
           | (w', Inr (row # _)) \<Rightarrow>
               store_chunks w' media cs
                 (acc @ [\<lparr>chunkId = c_id row, pageNumber = None,
                           result_metadata =
                             \<lparr>headings = [], page_number = None, content_type = None\<rparr>\<rparr>])))"

text \<open>The body of the outer \<open>try\<close> of \<open>process_chunks\<close>. The \<open>HTTPException\<close>s
  it raises (400, 404, 500) leave the body like any other exception.\<close>

definition process_chunks_body :: "world \<Rightarrow> ProcessChunkRequest
    \<Rightarrow> world \<times> (exn + ProcessChunkResponse)" where
  "process_chunks_body w request =
     (if fileName request = []
      then (w, Inl (HTTPException 400 ''File name is required''))
      else
        case storage_download w (fileName request) of
          Inl e \<Rightarrow> (w, Inl (HTTPException 404 (''Failed to download file: '' @ exc_str w e)))
        | Inr file_result \<Rightarrow>
            if file_result = []
            then (w, Inl (HTTPException 404 ''File not found in storage''))
            else
             (case select_media_by_name w (basename (fileName request)) of
                Inl e \<Rightarrow> (w, Inl e)
              | Inr [] \<Rightarrow> (w, Inl (HTTPException 404 ''Media record not found''))
              | Inr (media_data # _) \<Rightarrow>
                 (let file_ext = path_ext w (fileName request);
                      doc = process_document_with_docling w file_result file_ext
                  in case doc_error doc of
                       Some err \<Rightarrow> (w, Inl (HTTPException 500 err))
                     | None \<Rightarrow>
                        (case store_chunks w (m_id media_data)
                                (split_into_chunks (doc_text doc) 1000) [] of
                           (w', Inl e) \<Rightarrow> (w', Inl e)
                         | (w', Inr rs) \<Rightarrow>
                             (w', Inr \<lparr>success = True, chunks_n = int (length rs), results = rs,
                                       tables = doc_tables doc, figures = doc_figures doc,
                                       structure_info = doc_structure doc,
                                       note_text = ''Document processed successfully with structure preservation''\<rparr>)))))"

text \<open>\<open>process_chunks\<close>: the body inside
  \<open>except Exception as e: raise HTTPException(status_code=500, detail=str(e))\<close>.\<close>

definition process_chunks :: "world \<Rightarrow> ProcessChunkRequest
    \<Rightarrow> world \<times> (exn + ProcessChunkResponse)" where
  "process_chunks w request =
     (case process_chunks_body w request of (w', r) \<Rightarrow> (w', wrap500 w r))"

text \<open>\<open>background_process_chunks\<close> of process\_chunks.py (lines 80 to 82): it awaits
  \<open>process_chunks\<close> and has no handler, so an exception of \<open>process_chunks\<close> is
  its own.\<close>

definition background_process_chunks :: "world \<Rightarrow> string \<Rightarrow> world \<times> (exn + unit)" where
  "background_process_chunks w file_name =
     (case process_chunks w \<lparr>fileName = file_name\<rparr> of
        (w', Inl e) \<Rightarrow> (w', Inl e)
      | (w', Inr _) \<Rightarrow> (w', Inr ()))"

text \<open>The function of the same name in text\_processing.py (lines 113 to 119), which
  wraps the same two statements in \<open>try ... except Exception\<close> and only prints. The
  names it uses are looked up in its own module, whose global names are listed here
  (imports and definitions of text\_processing.py).\<close>

definition text_processing_globals :: "string list" where
  "text_processing_globals =
     [''re'', ''List'', ''Optional'', ''DocumentConverter'', ''HybridChunker'', ''os'', ''json'',
      ''setup_document_converter'', ''split_into_chunks'', ''process_document_with_docling'',
      ''create_embedding'', ''background_process_chunks'']"

definition lookup_global :: "string list \<Rightarrow> string \<Rightarrow> exn + unit" where
  "lookup_global names n = (if n \<in> set names then Inr () else Inl (NameError n))"

definition background_process_chunks_tp :: "world \<Rightarrow> string \<Rightarrow> world \<times> (exn + unit)" where
  "background_process_chunks_tp w file_name =
     (case lookup_global text_processing_globals ''ProcessChunkRequest'' of
        Inl e \<Rightarrow> (w, Inr ())
      | Inr _ \<Rightarrow>
          (case lookup_global text_processing_globals ''process_chunks'' of
             Inl e \<Rightarrow> (w, Inr ())
           | Inr _ \<Rightarrow>
               (case process_chunks w \<lparr>fileName = file_name\<rparr> of
                  (w', Inl e) \<Rightarrow> (w', Inr ())
                | (w', Inr _) \<Rightarrow> (w', Inr ()))))"

record UploadResponse =
  upload_success :: bool
  upload_fileName :: string
  mediaId :: string

text \<open>The three writes of \<open>upload_file\<close>.\<close>

definition storage_upload :: "world \<Rightarrow> string \<Rightarrow> bytes \<Rightarrow> exn + world" where
  "storage_upload w path content =
     (case db_fault w ''storage'' of
        Some e \<Rightarrow> Inl e
      | None \<Rightarrow> Inr (w\<lparr>storage := (path, content) # storage w\<rparr>))"

definition insert_media :: "world \<Rightarrow> string \<Rightarrow> string \<Rightarrow> string \<Rightarrow> string
    \<Rightarrow> exn + world \<times> media_row list" where
  "insert_media w name original owner path =
     (case db_fault w ''media'' of
        Some e \<Rightarrow> Inl e
      | None \<Rightarrow>
          if insert_returns w ''media''
          then (let row = \<lparr>m_id = new_id w ''media'' (length (media_table w)), m_name = name,
                            m_original_name = original, m_media_type = ''file'',
                            m_owner_id = owner, m_storage_path = path\<rparr>
                in Inr (w\<lparr>media_table := media_table w @ [row]\<rparr>, [row]))
          else Inr (w, []))"

definition insert_mapping :: "world \<Rightarrow> string \<Rightarrow> string \<Rightarrow> exn + world \<times> mapping_row list" where
  "insert_mapping w media ws =
     (case db_fault w ''media_workspace_mapping'' of
        Some e \<Rightarrow> Inl e
      | None \<Rightarrow>
          if insert_returns w ''media_workspace_mapping''
          then (let row = \<lparr>mw_media_id = media, mw_workspace_id = ws\<rparr>
                in Inr (w\<lparr>media_workspace_mapping := media_workspace_mapping w @ [row]\<rparr>, [row]))
          else Inr (w, []))"

text \<open>\<open>upload_file\<close>: the new world, the background tasks it registered (each the
  argument of one call of \<open>background_process_chunks\<close>, the function of
  process\_chunks.py: the module defines it and does not import the other one), and the
  response.\<close>

definition upload_file_body :: "world \<Rightarrow> string \<Rightarrow> bytes \<Rightarrow> string \<Rightarrow> string
    \<Rightarrow> world \<times> string list \<times> (exn + UploadResponse)" where
  "upload_file_body w filename content owner_id ws_id =
     (if owner_id = []
      then (w, [], Inl (HTTPException 401 ''User not authenticated''))
      else
       (let unique_filename = uuid4 w (length (storage w)) @ splitext_ext w filename;
            storage_path = ''uploads/'' @ unique_filename
        in case storage_upload w storage_path content of
             Inl e \<Rightarrow> (w, [], Inl e)
           | Inr w1 \<Rightarrow>
              (case insert_media w1 unique_filename filename owner_id storage_path of
                 Inl e \<Rightarrow> (w1, [], Inl e)
               | Inr (w2, []) \<Rightarrow>
                   (w2, [], Inl (HTTPException 500 ''Failed to create media record''))
               | Inr (w2, media_row # _) \<Rightarrow>
                  (case insert_mapping w2 (m_id media_row) ws_id of
                     Inl e \<Rightarrow> (w2, [], Inl e)
                   | Inr (w3, []) \<Rightarrow>
                       (w3, [],
                        Inl (HTTPException 500 ''Failed to create media workspace mapping record''))
                   | Inr (w3, _ # _) \<Rightarrow>
                       (w3, [storage_path],
                        Inr \<lparr>upload_success = True, upload_fileName = storage_path,
                             mediaId = m_id media_row\<rparr>)))))"

definition upload_file :: "world \<Rightarrow> string \<Rightarrow> bytes \<Rightarrow> string \<Rightarrow> string
    \<Rightarrow> world \<times> string list \<times> (exn + UploadResponse)" where
  "upload_file w filename content owner_id ws_id =
     (case upload_file_body w filename content owner_id ws_id of
        (w', tasks, r) \<Rightarrow> (w', tasks, wrap500 w r))"

section \<open>Ad hoc search (app/routes/embeddings.py)\<close>

record SearchQuery =
  sq_query :: string
  limit :: "int option"
  similarity_threshold :: "rat option"

record SearchResult =
  sr_chunk_id :: string
  sr_chunk_text :: string
  sr_similarity :: rat
  sr_media_id :: string
  sr_page_number :: "int option"

text \<open>The global names of app/utils/config.py: its two imports and the five settings
  it assigns. It creates no client.\<close>

definition config_globals :: "string list" where
  "config_globals =
     [''os'', ''load_dotenv'', ''OPENAI_API_KEY'', ''SUPABASE_URL'', ''SUPABASE_ANON_KEY'',
      ''TEMP_FILES_DIR'', ''STORAGE_BUCKET'']"

text \<open>\<open>from module import name\<close>, for a module that is not a package: the name must
  be one of the module's globals.\<close>

definition import_from :: "string list \<Rightarrow> string \<Rightarrow> exn + unit" where
  "import_from names n = (if n \<in> set names then Inr () else Inl (ImportError n))"

text \<open>\<open>supabase.table('chunks').select('*').execute()\<close>.\<close>

definition select_all_chunks :: "world \<Rightarrow> exn + chunk_row list" where
  "select_all_chunks w =
     (case db_fault w ''chunks'' of Some e \<Rightarrow> Inl e | None \<Rightarrow> Inr (chunks_table w))"

text \<open>The loop over \<open>chunks_result.data\<close>: parse the stored embedding, compute the
  similarity, keep the chunk when \<open>similarity >= query.similarity_threshold\<close> (a
  comparison that raises when the threshold is \<open>None\<close>).\<close>

fun score_chunks :: "world \<Rightarrow> SearchQuery \<Rightarrow> embedding \<Rightarrow> chunk_row list \<Rightarrow> SearchResult list
    \<Rightarrow> exn + SearchResult list" where
  "score_chunks w q query_embedding [] acc = Inr acc"
| "score_chunks w q query_embedding (c # cs) acc =
     (case json_loads w (c_embedding c) of
        Inl e \<Rightarrow> Inl e
      | Inr chunk_embedding \<Rightarrow>
          (case similarity_threshold q of
             None \<Rightarrow> Inl (TypeError ''>='')
           | Some threshold \<Rightarrow>
               if cosine w query_embedding chunk_embedding \<ge> threshold
               then score_chunks w q query_embedding cs
                      (acc @ [\<lparr>sr_chunk_id = c_id c, sr_chunk_text = c_chunk_text c,
                                sr_similarity = cosine w query_embedding chunk_embedding,
                                sr_media_id = c_media_id c,
                                sr_page_number = c_page_number c\<rparr>])
               else score_chunks w q query_embedding cs acc))"

text \<open>The slice \<open>xs[:n]\<close>: everything for \<open>None\<close>, the first \<open>n\<close> elements for
  \<open>n \<ge> 0\<close>, all but the last \<open>-n\<close> otherwise.\<close>

definition slice_to :: "int option \<Rightarrow> 'a list \<Rightarrow> 'a list" where
  "slice_to n xs =
     (case n of
        None \<Rightarrow> xs
      | Some k \<Rightarrow> if 0 \<le> k then take (nat k) xs else take (nat (int (length xs) + k)) xs)"

text \<open>What \<open>search_embeddings\<close> does with the client once it has one: lines 47 to
  75.\<close>

definition search_chunks :: "world \<Rightarrow> SearchQuery \<Rightarrow> embedding \<Rightarrow> exn + SearchResult list" where
  "search_chunks w q query_embedding =
     (case select_all_chunks w of
        Inl e \<Rightarrow> Inl e
      | Inr rows \<Rightarrow>
          if rows = [] then Inr []
          else (case score_chunks w q query_embedding rows [] of
                  Inl e \<Rightarrow> Inl e
                | Inr rs \<Rightarrow> Inr (slice_to (limit q) (sort_key (\<lambda>x. - sr_similarity x) rs))))"

text \<open>\<open>search_embeddings\<close>: the query is embedded, then the client is imported
  inside the function, \<open>from app.utils.config import supabase\<close>, then the chunks are
  searched; all of it inside the handler that turns every exception into a 500.\<close>

definition search_embeddings :: "world \<Rightarrow> SearchQuery \<Rightarrow> exn + SearchResult list" where
  "search_embeddings w q =
     wrap500 w
       (case create_embedding w (sq_query q) of
          Inl e \<Rightarrow> Inl e
        | Inr query_embedding \<Rightarrow>
            (case import_from config_globals ''supabase'' of
               Inl e \<Rightarrow> Inl e
             | Inr _ \<Rightarrow> search_chunks w q query_embedding))"

section \<open>An example deployment\<close>

text \<open>
  A small world on which the routes are run below. The workspace \<open>ws-a\<close> holds the
  document \<open>m1\<close>, the workspace \<open>ws-b\<close> holds \<open>m2\<close>. The vector search answers
  the empty embedding with nothing and every other one with five units of \<open>m1\<close>. The
  bucket holds a convertible file with a media record, a file without a media record,
  and the converter rejects a file whose content is the single byte 0. The string of an
  exception is its message, with status code and colon in front for an
  \<open>HTTPException\<close>.
\<close>

definition example_candidate :: "string \<Rightarrow> rat \<Rightarrow> candidate" where
  "example_candidate i s =
     \<lparr>row_id = i, row_media_id = ''m1'', row_chunk_text = ''unit '' @ i, row_similarity = s,
      row_media = Some [(''name'', ''policy.pdf'')]\<rparr>"

definition example_candidates :: "candidate list" where
  "example_candidates =
     [example_candidate ''c1'' (81 / 100), example_candidate ''c2'' (7 / 10),
      example_candidate ''c3'' (6 / 10), example_candidate ''c4'' (1 / 2),
      example_candidate ''c5'' (4 / 10)]"

definition example_status :: "nat \<Rightarrow> string" where
  "example_status n =
     (if n = 400 then ''400'' else if n = 401 then ''401'' else if n = 404 then ''404''
      else if n = 500 then ''500'' else ''000'')"

fun example_exc_str :: "exn \<Rightarrow> string" where
  "example_exc_str (HTTPException n d) = example_status n @ '': '' @ d"
| "example_exc_str (ImportError n) = ''cannot import name '' @ n"
| "example_exc_str (NameError n) = ''name is not defined: '' @ n"
| "example_exc_str (TypeError m) = m"
| "example_exc_str (ServiceError m) = m"

definition example_world :: world where
  "example_world =
     \<lparr>chunks_table =
        [\<lparr>c_id = ''c1'', c_chunk_text = ''Refunds are processed within 30 days.'',
          c_media_id = ''m1'', c_page_number = None, c_embedding = ''[1]''\<rparr>],
      media_table =
        [\<lparr>m_id = ''m1'', m_name = ''policy.pdf'', m_original_name = ''policy.pdf'',
          m_media_type = ''file'', m_owner_id = ''alice'',
          m_storage_path = ''uploads/policy.pdf''\<rparr>],
      media_workspace_mapping =
        [\<lparr>mw_media_id = ''m1'', mw_workspace_id = ''ws-a''\<rparr>,
         \<lparr>mw_media_id = ''m2'', mw_workspace_id = ''ws-b''\<rparr>],
      storage = [(''uploads/policy.pdf'', [37, 80, 68, 70]), (''uploads/orphan.pdf'', [37])],
      db_fault = (\<lambda>t. None),
      insert_returns = (\<lambda>t. True),
      new_id = (\<lambda>t n. if n = 0 then ''id0'' else if n = 1 then ''id1'' else ''id2''),
      uuid4 = (\<lambda>n. if n = 2 then ''u2'' else ''u3''),
      exc_str = example_exc_str,
      splitext_ext = (\<lambda>p. ''.'' @ rev (takeWhile (\<lambda>c. c \<noteq> CHR ''.'') (rev p))),
      path_ext = (\<lambda>p. rev (takeWhile (\<lambda>c. c \<noteq> CHR ''.'') (rev p))),
      json_dumps = (\<lambda>e. ''[1]''),
      json_loads = (\<lambda>s. Inr [1]),
      cosine = (\<lambda>a b. 1),
      embeddings_create = (\<lambda>t. if t = [] then Inr [] else Inr [1]),
      match_chunks = (\<lambda>e threshold n. if e = [] then Inr [] else Inr example_candidates),
      chat_completions_create = (\<lambda>sys usr. Inr ''generated answer''),
      docling_convert =
        (\<lambda>b. if b = [0] then Inl (ServiceError ''File format not allowed'')
             else Inr ''Sentence one. Sentence two.'')\<rparr>"

definition example_request :: "string \<Rightarrow> string \<Rightarrow> int option \<Rightarrow> ChatRequest" where
  "example_request q ws m =
     \<lparr>query = q, workspace_id = ws, user_id = Some ''alice'', max_context_chunks = m,
      authorization = None\<rparr>"

section \<open>Properties of the chunker\<close>

lemma split_str_no_sep: "sep \<notin> set s \<Longrightarrow> split_str sep s = [s]"
  by (induction s) auto

text \<open>
  \<^bold>\<open>C4\<close>, as stated: for the empty text and any chunk size, \<open>split_into_chunks\<close>
  returns exactly one chunk whose text is the empty string. With the default chunk size
  the single chunk holds the terminator instead: the only sentence of the empty text
  is the empty string, it fits, and \<open>'.'\<close> is appended to it before it is emitted.
\<close>

theorem empty_text_chunk_is_terminator:
  "map ctext (split_into_chunks [] 1000) = [''.'']
   \<and> map ctext (split_into_chunks [] 1000) \<noteq> [[]]"
  by (simp add: split_into_chunks_def strip_def isspace_def mk_chunk_def)

text \<open>
  \<^bold>\<open>C4\<close>, amended: for the empty text and any chunk size, \<open>split_into_chunks\<close>
  returns exactly one chunk (and, being a total function of a string and an integer,
  raises nothing); the text of that chunk is \<open>"."\<close> for every chunk size from 0 on, and
  the empty string only for a negative chunk size.
\<close>

theorem split_into_chunks_empty_text:
  "split_into_chunks [] chunk_size =
     (if chunk_size < 0 then [mk_chunk []] else [mk_chunk ''.''])"
  by (simp add: split_into_chunks_def strip_def isspace_def)

theorem split_into_chunks_empty_text_witness:
  "split_into_chunks [] 15 = [\<lparr>ctext = ''.'', metadata = []\<rparr>]"
  using split_into_chunks_empty_text [of 15] by (simp add: mk_chunk_def)

text \<open>A text without terminator that is longer than the chunk size: the loop emits
  the still empty buffer first, then the text.\<close>

lemma first_sentence_too_long:
  assumes "CHR ''.'' \<notin> set s" "0 \<le> chunk_size" "chunk_size < int (length s)"
  shows "map ctext (split_into_chunks s chunk_size) = [[], strip s]"
  using assms
  by (auto simp add: split_into_chunks_def split_str_no_sep mk_chunk_def strip_def)

text \<open>
  \<^bold>\<open>C5\<close> (every emitted chunk is non-empty after trimming, and the sentences of the
  chunks, in order, are the sentences of the input). Two runs of the code. The text
  \<open>abc\<close> with chunk size 2: the first chunk is empty, because the overflow branch emits
  the buffer without the test for emptiness that the final emission has. The text
  \<open>aaa.bb.cc\<close> with chunk size 4: its sentences are \<open>aaa\<close>, \<open>bb\<close>, \<open>cc\<close>, but the
  second chunk is \<open>bbcc.\<close>, one sentence, because the overflow branch restarts the
  buffer with the sentence and no terminator.
\<close>

theorem split_into_chunks_empty_and_fused_chunks:
  "map ctext (split_into_chunks ''abc'' 2) = [[], ''abc'']
   \<and> split_str CHR ''.'' ''aaa.bb.cc'' = [''aaa'', ''bb'', ''cc'']
   \<and> map ctext (split_into_chunks ''aaa.bb.cc'' 4) = [''aaa.'', ''bbcc.'']"
  by (simp add: split_into_chunks_def strip_def isspace_def mk_chunk_def)

text \<open>
  \<^bold>\<open>C6\<close> (for a limit \<open>L \<ge> 1\<close> no chunk is longer than \<open>L\<close>, unless it is a single
  sentence longer than \<open>L\<close>). A run of the code: the text \<open>a.b\<close> with limit 3 has the
  two one-character sentences \<open>a\<close> and \<open>b\<close>, and the only chunk is \<open>a.b.\<close>, of
  length 4. The test of the loop compares the buffer and the sentence with the limit
  and leaves out the terminator that is appended afterwards.
\<close>

theorem split_into_chunks_exceeds_limit:
  "split_str CHR ''.'' ''a.b'' = [''a'', ''b'']
   \<and> map ctext (split_into_chunks ''a.b'' 3) = [''a.b.'']
   \<and> length ''a.b.'' = 4"
  by (simp add: split_into_chunks_def strip_def isspace_def mk_chunk_def)

section \<open>Properties of the workspace filter\<close>

lemma descending_iff:
  "sorted (map (\<lambda>x. - row_similarity x) cs) =
   sorted_wrt (\<lambda>a b. row_similarity a \<ge> row_similarity b) cs"
  by (simp add: sorted_map)

text \<open>
  \<^bold>\<open>C9\<close>: the workspace filter leaves a candidate list unchanged when every element
  belongs to a document of the workspace and the list is already in descending order of
  similarity.
\<close>

theorem workspace_filter_unchanged:
  assumes "\<forall>c \<in> set cs. row_media_id c \<in> set ids"
    and "sorted_wrt (\<lambda>a b. row_similarity a \<ge> row_similarity b) cs"
  shows "workspace_filter cs ids = cs"
  using assms unfolding workspace_filter_def
  by (simp add: sort_key_id_if_sorted descending_iff)

theorem workspace_filter_unchanged_witness:
  "map row_media_id example_candidates = [''m1'', ''m1'', ''m1'', ''m1'', ''m1'']
   \<and> map row_similarity example_candidates = [81 / 100, 7 / 10, 6 / 10, 1 / 2, 4 / 10]
   \<and> workspace_filter example_candidates [''m1''] = example_candidates"
proof -
  have a: "\<forall>c \<in> set example_candidates. row_media_id c \<in> set [''m1'']"
    by (simp add: example_candidates_def example_candidate_def)
  have b: "sorted_wrt (\<lambda>a b. row_similarity a \<ge> row_similarity b) example_candidates"
    by (simp add: example_candidates_def example_candidate_def)
  show ?thesis
    using workspace_filter_unchanged [OF a b]
    by (simp add: example_candidates_def example_candidate_def)
qed

text \<open>Applying the filter a second time changes nothing, whatever the first input.\<close>

lemma workspace_filter_twice:
  "workspace_filter (workspace_filter cs ids) ids = workspace_filter cs ids"
  unfolding workspace_filter_def
  by (simp add: sort_key_id_if_sorted filter_sort)

section \<open>Properties of the chat route\<close>

lemma build_context_eq:
  "build_context cs ctx acc = (ctx @ concat (map context_block cs), acc @ map citation cs)"
  by (induction cs arbitrary: ctx acc) auto

text \<open>The run of \<open>chat\<close> once the vector search has returned candidates and the
  workspace has member documents: one generation call with the context instruction, the
  context blocks and the citations of the first ten filtered candidates.\<close>

lemma chat_grounded:
  assumes "user_id request = Some u" "u \<noteq> []"
    and "create_embedding w (query request) = Inr e"
    and "match_documents w e = Inr cs" "cs \<noteq> []"
    and "workspace_media_ids w (workspace_id request) = Inr ids" "ids \<noteq> []"
  shows "chat w request =
     (let top_chunks = take (min 10 (length (workspace_filter cs ids))) (workspace_filter cs ids);
          usr = user_prompt (concat (map context_block top_chunks)) (query request)
      in ([EmbedQuery (query request), VectorSearch e (35 / 100) 20,
           WorkspaceLookup (workspace_id request), Generate system_prompt usr],
          wrap500 w (case chat_completions_create w system_prompt usr of
             Inl x \<Rightarrow> Inl x
           | Inr content \<Rightarrow>
               Inr \<lparr>answer = content, context_sources = map citation top_chunks\<rparr>)))"
  using assms by (simp add: chat_def chat_body_def generate_def build_context_eq Let_def)

text \<open>The field \<open>max_context_chunks\<close> of the request is never read.\<close>

lemma chat_ignores_max_context_chunks:
  "chat w (request\<lparr>max_context_chunks := m\<rparr>) = chat w request"
  by (simp add: chat_def chat_body_def reject_unauthenticated_def Let_def
        cong: sum.case_cong if_cong)

lemmas example_defs =
  example_world_def example_request_def example_candidates_def example_candidate_def

lemma example_filter_b: "workspace_filter example_candidates [''m2''] = []"
  by (simp add: workspace_filter_def example_defs)

lemma example_filter_a: "workspace_filter example_candidates [''m1''] = example_candidates"
  by (simp add: workspace_filter_def example_defs)

lemma example_lookup_b: "workspace_media_ids example_world ''ws-b'' = Inr [''m2'']"
  by (simp add: workspace_media_ids_def example_defs)

lemma example_lookup_a: "workspace_media_ids example_world ''ws-a'' = Inr [''m1'']"
  by (simp add: workspace_media_ids_def example_defs)

lemma example_embed: "create_embedding example_world ''refund?'' = Inr [1]"
  by (simp add: create_embedding_def example_defs)

lemma example_search: "match_documents example_world [1] = Inr example_candidates"
  by (simp add: match_documents_def example_defs)

lemma example_generate: "chat_completions_create example_world sys usr = Inr ''generated answer''"
  by (simp add: example_world_def)

lemma prompts_differ: "system_prompt \<noteq> generic_instruction"
  by (simp add: system_prompt_def generic_instruction_def)

text \<open>
  \<^bold>\<open>C8\<close>: when the vector search of a query returns no candidates (so the request
  carried a user id and the query was embedded, to \<open>e\<close>), the calls made are the
  embedding, the search and one generation call with the generic instruction and the raw
  query; there is no lookup of the workspace's documents; and the response, when the
  generation call answers, has an empty citation list.
\<close>

theorem chat_no_candidates:
  assumes "user_id request = Some u" "u \<noteq> []"
    and "create_embedding w (query request) = Inr e"
    and "match_documents w e = Inr []"
  shows "chat w request =
     ([EmbedQuery (query request), VectorSearch e (35 / 100) 20,
       Generate generic_instruction (query request)],
      wrap500 w (case chat_completions_create w generic_instruction (query request) of
         Inl x \<Rightarrow> Inl x
       | Inr content \<Rightarrow> Inr \<lparr>answer = content, context_sources = []\<rparr>))"
  using assms by (simp add: chat_def chat_body_def generate_def)

theorem chat_no_candidates_witness:
  "match_documents example_world [] = Inr []
   \<and> chat example_world (example_request [] ''ws-a'' (Some 10)) =
     ([EmbedQuery [], VectorSearch [] (35 / 100) 20, Generate generic_instruction []],
      Inr \<lparr>answer = ''generated answer'', context_sources = []\<rparr>)"
proof -
  let ?r = "example_request [] ''ws-a'' (Some 10)"
  have 1: "user_id ?r = Some ''alice''" by (simp add: example_request_def)
  have 2: "''alice'' \<noteq> []" by simp
  have 3: "create_embedding example_world (query ?r) = Inr []"
    by (simp add: example_request_def create_embedding_def example_world_def)
  have 4: "match_documents example_world [] = Inr []"
    by (simp add: match_documents_def example_world_def)
  show ?thesis
    using chat_no_candidates [OF 1 2 3 4] 4
    by (simp add: example_request_def wrap500_def example_generate)
qed

text \<open>
  \<^bold>\<open>C1\<close>, as stated: when the search returns candidates, the workspace has a member
  document and the filter keeps no candidate, the generation call uses the generic
  instruction and the raw query. In the example the search returns five units of
  \<open>m1\<close>, the workspace \<open>ws-b\<close> holds \<open>m2\<close> only, the filter keeps nothing, and the
  generation call made is the one with the context instruction and the prompt built
  around an empty context.
\<close>

theorem chat_filter_empty_not_fallback:
  "match_documents example_world [1] = Inr example_candidates
   \<and> example_candidates \<noteq> []
   \<and> workspace_media_ids example_world ''ws-b'' = Inr [''m2'']
   \<and> workspace_filter example_candidates [''m2''] = []
   \<and> fst (chat example_world (example_request ''refund?'' ''ws-b'' (Some 10))) =
       [EmbedQuery ''refund?'', VectorSearch [1] (35 / 100) 20, WorkspaceLookup ''ws-b'',
        Generate system_prompt (user_prompt [] ''refund?'')]
   \<and> Generate system_prompt (user_prompt [] ''refund?'')
       \<noteq> Generate generic_instruction ''refund?''"
proof -
  let ?r = "example_request ''refund?'' ''ws-b'' (Some 10)"
  have 1: "user_id ?r = Some ''alice''" by (simp add: example_request_def)
  have 2: "''alice'' \<noteq> []" by simp
  have 3: "create_embedding example_world (query ?r) = Inr [1]"
    by (simp add: example_request_def example_embed)
  have 5: "example_candidates \<noteq> []" by (simp add: example_candidates_def)
  have 6: "workspace_media_ids example_world (workspace_id ?r) = Inr [''m2'']"
    by (simp add: example_request_def example_lookup_b)
  have 7: "[''m2''] \<noteq> ([] :: string list)" by simp
  have "fst (chat example_world ?r) =
       [EmbedQuery ''refund?'', VectorSearch [1] (35 / 100) 20, WorkspaceLookup ''ws-b'',
        Generate system_prompt (user_prompt [] ''refund?'')]"
    unfolding chat_grounded [OF 1 2 3 example_search 5 6 7]
    by (simp add: example_request_def example_filter_b Let_def)
  then show ?thesis
    using example_search 5 example_lookup_b example_filter_b prompts_differ by simp
qed

text \<open>
  \<^bold>\<open>C1\<close>, amended: when the search returns at least one candidate, the workspace has
  at least one member document and no candidate belongs to a member document, the
  orchestrator does not fall back. After the workspace lookup it makes the generation
  call of the grounded path, with the context instruction and the user prompt built
  around an empty context and the query, and the citation list of the response is
  empty.
\<close>

theorem chat_filter_empty_grounded_prompt:
  assumes "user_id request = Some u" "u \<noteq> []"
    and "create_embedding w (query request) = Inr e"
    and "match_documents w e = Inr cs" "cs \<noteq> []"
    and "workspace_media_ids w (workspace_id request) = Inr ids" "ids \<noteq> []"
    and "\<forall>c \<in> set cs. row_media_id c \<notin> set ids"
  shows "chat w request =
     ([EmbedQuery (query request), VectorSearch e (35 / 100) 20,
       WorkspaceLookup (workspace_id request),
       Generate system_prompt (user_prompt [] (query request))],
      wrap500 w (case chat_completions_create w system_prompt
                        (user_prompt [] (query request)) of
         Inl x \<Rightarrow> Inl x
       | Inr content \<Rightarrow> Inr \<lparr>answer = content, context_sources = []\<rparr>))"
proof -
  have "filter (\<lambda>result. row_media_id result \<in> set ids) cs = []"
    using assms(8) by (simp add: filter_empty_conv)
  then have "workspace_filter cs ids = []"
    by (simp add: workspace_filter_def)
  then show ?thesis
    unfolding chat_grounded [OF assms(1-7)] by (simp add: Let_def cong: sum.case_cong)
qed

theorem chat_filter_empty_grounded_prompt_witness:
  "map row_media_id example_candidates = [''m1'', ''m1'', ''m1'', ''m1'', ''m1'']
   \<and> workspace_media_ids example_world ''ws-b'' = Inr [''m2'']
   \<and> chat example_world (example_request ''refund?'' ''ws-b'' (Some 10)) =
     ([EmbedQuery ''refund?'', VectorSearch [1] (35 / 100) 20, WorkspaceLookup ''ws-b'',
       Generate system_prompt (user_prompt [] ''refund?'')],
      Inr \<lparr>answer = ''generated answer'', context_sources = []\<rparr>)"
proof -
  let ?r = "example_request ''refund?'' ''ws-b'' (Some 10)"
  have 1: "user_id ?r = Some ''alice''" by (simp add: example_request_def)
  have 2: "''alice'' \<noteq> []" by simp
  have 3: "create_embedding example_world (query ?r) = Inr [1]"
    by (simp add: example_request_def example_embed)
  have 5: "example_candidates \<noteq> []" by (simp add: example_candidates_def)
  have 6: "workspace_media_ids example_world (workspace_id ?r) = Inr [''m2'']"
    by (simp add: example_request_def example_lookup_b)
  have 7: "[''m2''] \<noteq> ([] :: string list)" by simp
  have 8: "\<forall>c \<in> set example_candidates. row_media_id c \<notin> set [''m2'']"
    by (simp add: example_candidates_def example_candidate_def)
  have ids: "map row_media_id example_candidates = [''m1'', ''m1'', ''m1'', ''m1'', ''m1'']"
    by (simp add: example_candidates_def example_candidate_def)
  show ?thesis
    using chat_filter_empty_grounded_prompt [OF 1 2 3 example_search 5 6 7 8]
      ids example_lookup_b
    by (simp add: example_request_def wrap500_def example_generate)
qed

text \<open>
  \<^bold>\<open>C2\<close> (the numbers of context blocks and of citations are the minimum of the
  request's \<open>max_context_chunks\<close> and the number of filtered candidates). A run of the
  code: the request asks for at most 3 chunks, five candidates survive the filter, and
  the response cites all five. The limit of the code is the literal 10.
\<close>

theorem chat_cites_five_when_three_requested:
  "max_context_chunks (example_request ''refund?'' ''ws-a'' (Some 3)) = Some 3
   \<and> workspace_filter example_candidates [''m1''] = example_candidates
   \<and> snd (chat example_world (example_request ''refund?'' ''ws-a'' (Some 3))) =
       Inr \<lparr>answer = ''generated answer'',
            context_sources = map citation example_candidates\<rparr>
   \<and> length (map citation example_candidates) = 5"
proof -
  let ?r = "example_request ''refund?'' ''ws-a'' (Some 3)"
  have 1: "user_id ?r = Some ''alice''" by (simp add: example_request_def)
  have 2: "''alice'' \<noteq> []" by simp
  have 3: "create_embedding example_world (query ?r) = Inr [1]"
    by (simp add: example_request_def example_embed)
  have 5: "example_candidates \<noteq> []" by (simp add: example_candidates_def)
  have 6: "workspace_media_ids example_world (workspace_id ?r) = Inr [''m1'']"
    by (simp add: example_request_def example_lookup_a)
  have 7: "[''m1''] \<noteq> ([] :: string list)" by simp
  have len: "length example_candidates = 5" by (simp add: example_candidates_def)
  have "snd (chat example_world ?r) =
     Inr \<lparr>answer = ''generated answer'', context_sources = map citation example_candidates\<rparr>"
    unfolding chat_grounded [OF 1 2 3 example_search 5 6 7]
    by (simp add: example_filter_a Let_def example_generate wrap500_def len)
  then show ?thesis
    using len example_filter_a by (simp add: example_request_def)
qed

section \<open>Properties of ingestion\<close>

text \<open>Whatever goes wrong in \<open>process_chunks\<close>, the caller sees status 500.\<close>

lemma process_chunks_status:
  "snd (process_chunks w request) = Inl x \<Longrightarrow> \<exists>d. x = HTTPException 500 d"
  by (auto simp add: process_chunks_def wrap500_def split: prod.splits sum.splits)

text \<open>The file is absent from storage: the 404 raised for it is caught by the outer
  handler and becomes the detail of a 500.\<close>

lemma process_chunks_file_absent:
  assumes "fileName request \<noteq> []" "db_fault w ''storage'' = None"
    and "map_of (storage w) (fileName request) = None"
  shows "process_chunks w request =
     (w, Inl (HTTPException 500
        (exc_str w (HTTPException 404
           (''Failed to download file: '' @ exc_str w (ServiceError ''Object not found''))))))"
  using assms
  by (simp add: process_chunks_def process_chunks_body_def storage_download_def wrap500_def)

text \<open>The file is stored but no media record carries its name: the same.\<close>

lemma process_chunks_media_absent:
  assumes "fileName request \<noteq> []" "db_fault w ''storage'' = None"
    and "map_of (storage w) (fileName request) = Some content" "content \<noteq> []"
    and "db_fault w ''media'' = None"
    and "\<forall>r \<in> set (media_table w). m_name r \<noteq> basename (fileName request)"
  shows "process_chunks w request =
     (w, Inl (HTTPException 500 (exc_str w (HTTPException 404 ''Media record not found''))))"
proof -
  have "filter (\<lambda>r. m_name r = basename (fileName request)) (media_table w) = []"
    using assms(6) by (simp add: filter_empty_conv)
  then show ?thesis
    using assms
    by (simp add: process_chunks_def process_chunks_body_def storage_download_def
          select_media_by_name_def wrap500_def)
qed

text \<open>The converter rejects the file: a 500 whose detail is the string of the 500
  raised for the conversion error.\<close>

lemma process_chunks_conversion_fails:
  assumes "fileName request \<noteq> []" "db_fault w ''storage'' = None"
    and "map_of (storage w) (fileName request) = Some content" "content \<noteq> []"
    and "db_fault w ''media'' = None"
    and "filter (\<lambda>r. m_name r = basename (fileName request)) (media_table w) = row # rows"
    and "docling_convert w content = Inl e"
  shows "process_chunks w request =
     (w, Inl (HTTPException 500
        (exc_str w (HTTPException 500 (''Failed to process document: '' @ exc_str w e)))))"
  using assms
  by (simp add: process_chunks_def process_chunks_body_def storage_download_def
        select_media_by_name_def process_document_with_docling_def wrap500_def)

lemma example_no_fault: "db_fault example_world t = None"
  by (simp add: example_world_def)

lemma example_storage:
  "storage example_world =
     [(''uploads/policy.pdf'', [37, 80, 68, 70]), (''uploads/orphan.pdf'', [37])]"
  by (simp add: example_world_def)

lemma example_exc_str_eq: "exc_str example_world = example_exc_str"
  by (simp add: example_world_def)

text \<open>
  \<^bold>\<open>C3\<close> (an ingestion request for a file absent from storage, or for a file without
  media record, fails with a not-found failure). Two runs of the code: the request for
  \<open>uploads/missing.pdf\<close>, which the bucket does not hold, and the request for
  \<open>uploads/orphan.pdf\<close>, which no media record names. Both end with status 500; the
  404 that the code raises first survives only inside the detail string.
\<close>

theorem process_chunks_not_found_becomes_500:
  "map_of (storage example_world) ''uploads/missing.pdf'' = None
   \<and> snd (process_chunks example_world \<lparr>fileName = ''uploads/missing.pdf''\<rparr>) =
       Inl (HTTPException 500 ''404: Failed to download file: Object not found'')
   \<and> filter (\<lambda>r. m_name r = ''orphan.pdf'') (media_table example_world) = []
   \<and> snd (process_chunks example_world \<lparr>fileName = ''uploads/orphan.pdf''\<rparr>) =
       Inl (HTTPException 500 ''404: Media record not found'')"
proof -
  have a: "map_of (storage example_world) ''uploads/missing.pdf'' = None"
    by (simp add: example_storage)
  have b: "map_of (storage example_world) ''uploads/orphan.pdf'' = Some [37]"
    by (simp add: example_storage)
  have c: "\<forall>r \<in> set (media_table example_world). m_name r \<noteq> basename ''uploads/orphan.pdf''"
    by (simp add: example_world_def basename_def)
  have d: "filter (\<lambda>r. m_name r = ''orphan.pdf'') (media_table example_world) = []"
    by (simp add: example_world_def)
  have 1: "process_chunks example_world \<lparr>fileName = ''uploads/missing.pdf''\<rparr> =
     (example_world, Inl (HTTPException 500 ''404: Failed to download file: Object not found''))"
    using a
    by (simp add: process_chunks_file_absent example_no_fault example_exc_str_eq
          example_status_def)
  have 2: "process_chunks example_world \<lparr>fileName = ''uploads/orphan.pdf''\<rparr> =
     (example_world, Inl (HTTPException 500 ''404: Media record not found''))"
    using b c
    by (simp add: process_chunks_media_absent example_no_fault example_exc_str_eq
          example_status_def)
  show ?thesis by (simp add: 1 2 a d)
qed

text \<open>The task function of process\_chunks.py returns what \<open>process_chunks\<close> raises;
  the function of the same name in text\_processing.py raises nothing (it cannot even
  resolve the names it calls).\<close>

lemma background_process_chunks_propagates:
  "snd (background_process_chunks w f) =
     (case snd (process_chunks w \<lparr>fileName = f\<rparr>) of Inl e \<Rightarrow> Inl e | Inr _ \<Rightarrow> Inr ())"
  by (cases "process_chunks w \<lparr>fileName = f\<rparr>")
     (simp add: background_process_chunks_def split: sum.splits)

lemma background_process_chunks_tp_swallows:
  "snd (background_process_chunks_tp w file_name) = Inr ()"
  by (simp add: background_process_chunks_tp_def lookup_global_def text_processing_globals_def)

lemma example_upload:
  "upload_file example_world ''scan.bin'' [0] ''alice'' ''ws-a'' =
     (example_world
        \<lparr>storage := (''uploads/u2.bin'', [0]) # storage example_world,
         media_table := media_table example_world @
           [\<lparr>m_id = ''id1'', m_name = ''u2.bin'', m_original_name = ''scan.bin'',
             m_media_type = ''file'', m_owner_id = ''alice'',
             m_storage_path = ''uploads/u2.bin''\<rparr>],
         media_workspace_mapping := media_workspace_mapping example_world @
           [\<lparr>mw_media_id = ''id1'', mw_workspace_id = ''ws-a''\<rparr>]\<rparr>,
      [''uploads/u2.bin''],
      Inr \<lparr>upload_success = True, upload_fileName = ''uploads/u2.bin'', mediaId = ''id1''\<rparr>)"
  by (simp add: upload_file_def upload_file_body_def storage_upload_def insert_media_def
        insert_mapping_def wrap500_def example_world_def Let_def)

text \<open>
  \<^bold>\<open>C7\<close> (the background task that \<open>upload_file\<close> registers never lets an error
  reach its caller). A run of the code: the upload of a file that the converter rejects
  succeeds and registers one task, for \<open>uploads/u2.bin\<close>; running that task in the
  world the upload left ends with the \<open>HTTPException\<close> of \<open>process_chunks\<close>, raised
  out of the task function.
\<close>

theorem registered_background_task_raises:
  "fst (snd (upload_file example_world ''scan.bin'' [0] ''alice'' ''ws-a'')) = [''uploads/u2.bin'']
   \<and> snd (background_process_chunks
            (fst (upload_file example_world ''scan.bin'' [0] ''alice'' ''ws-a''))
            ''uploads/u2.bin'') =
       Inl (HTTPException 500 ''500: Failed to process document: File format not allowed'')"
proof -
  define w where "w = fst (upload_file example_world ''scan.bin'' [0] ''alice'' ''ws-a'')"
  have w: "w = example_world
        \<lparr>storage := (''uploads/u2.bin'', [0]) # storage example_world,
         media_table := media_table example_world @
           [\<lparr>m_id = ''id1'', m_name = ''u2.bin'', m_original_name = ''scan.bin'',
             m_media_type = ''file'', m_owner_id = ''alice'',
             m_storage_path = ''uploads/u2.bin''\<rparr>],
         media_workspace_mapping := media_workspace_mapping example_world @
           [\<lparr>mw_media_id = ''id1'', mw_workspace_id = ''ws-a''\<rparr>]\<rparr>"
    by (simp add: w_def example_upload)
  have 1: "fileName \<lparr>fileName = ''uploads/u2.bin''\<rparr> \<noteq> []" by simp
  have 2: "db_fault w ''storage'' = None" by (simp add: w example_no_fault)
  have 3: "map_of (storage w) (fileName \<lparr>fileName = ''uploads/u2.bin''\<rparr>) = Some [0]"
    by (simp add: w)
  have 4: "[0::nat] \<noteq> []" by simp
  have 5: "db_fault w ''media'' = None" by (simp add: w example_no_fault)
  have 6: "filter (\<lambda>r. m_name r = basename (fileName \<lparr>fileName = ''uploads/u2.bin''\<rparr>))
             (media_table w) =
           \<lparr>m_id = ''id1'', m_name = ''u2.bin'', m_original_name = ''scan.bin'',
             m_media_type = ''file'', m_owner_id = ''alice'',
             m_storage_path = ''uploads/u2.bin''\<rparr> # []"
    by (simp add: w basename_def) (simp add: example_world_def)
  have 7: "docling_convert w [0] = Inl (ServiceError ''File format not allowed'')"
    by (simp add: w) (simp add: example_world_def)
  have 8: "exc_str w = example_exc_str" by (simp add: w example_exc_str_eq)
  have "snd (background_process_chunks w ''uploads/u2.bin'') =
       Inl (HTTPException 500 ''500: Failed to process document: File format not allowed'')"
    unfolding background_process_chunks_propagates
      process_chunks_conversion_fails [OF 1 2 3 4 5 6 7] 8
    by (simp add: example_status_def)
  then show ?thesis
    unfolding w_def by (simp add: example_upload)
qed

section \<open>Properties of the ad hoc search\<close>

text \<open>Every call of \<open>search_embeddings\<close> ends in a 500: either the embedding service
  failed, or the import of the client did.\<close>

lemma search_embeddings_fails:
  "search_embeddings w q =
     Inl (HTTPException 500
       (exc_str w (case create_embedding w (sq_query q) of
                     Inl e \<Rightarrow> e | Inr _ \<Rightarrow> ImportError ''supabase'')))"
  by (simp add: search_embeddings_def import_from_def config_globals_def wrap500_def
        split: sum.splits)

text \<open>The search over the chunks, taken alone, reads nothing of the workspace
  mapping.\<close>

lemma score_chunks_ignores_mapping:
  "score_chunks (w\<lparr>media_workspace_mapping := m\<rparr>) q e rows acc = score_chunks w q e rows acc"
  by (induction rows arbitrary: acc) (auto split: sum.splits option.splits)

lemma search_chunks_ignores_mapping:
  "search_chunks (w\<lparr>media_workspace_mapping := m\<rparr>) q e = search_chunks w q e"
  by (simp add: search_chunks_def select_all_chunks_def score_chunks_ignores_mapping
        split: option.splits)

text \<open>
  \<^bold>\<open>C10\<close> (the result of the ad hoc search is computed over all stored chunks,
  whatever the workspace mapping, so that units of any document can appear in it). A run
  of the code: the store holds a chunk that the search over the chunks would return, for
  the query embedding \<open>[1]\<close> and the default threshold, but the request ends in a 500
  before any chunk is read, because app/utils/config.py has no global \<open>supabase\<close> to
  import. The result is the same for every workspace mapping only in that it is this
  failure for every store.
\<close>

theorem search_embeddings_import_fails:
  "search_chunks example_world
     \<lparr>sq_query = ''refund'', limit = Some 5, similarity_threshold = Some (35 / 100)\<rparr> [1] =
     Inr [\<lparr>sr_chunk_id = ''c1'', sr_chunk_text = ''Refunds are processed within 30 days.'',
           sr_similarity = 1, sr_media_id = ''m1'', sr_page_number = None\<rparr>]
   \<and> search_embeddings example_world
     \<lparr>sq_query = ''refund'', limit = Some 5, similarity_threshold = Some (35 / 100)\<rparr> =
     Inl (HTTPException 500 ''cannot import name supabase'')"
proof -
  have 1: "search_embeddings example_world
     \<lparr>sq_query = ''refund'', limit = Some 5, similarity_threshold = Some (35 / 100)\<rparr> =
     Inl (HTTPException 500 ''cannot import name supabase'')"
    by (simp add: search_embeddings_fails create_embedding_def example_world_def)
  have 2: "search_chunks example_world
     \<lparr>sq_query = ''refund'', limit = Some 5, similarity_threshold = Some (35 / 100)\<rparr> [1] =
     Inr [\<lparr>sr_chunk_id = ''c1'', sr_chunk_text = ''Refunds are processed within 30 days.'',
           sr_similarity = 1, sr_media_id = ''m1'', sr_page_number = None\<rparr>]"
    by (simp add: search_chunks_def select_all_chunks_def slice_to_def example_world_def)
  show ?thesis using 1 2 by simp
qed

end
